theory Spec2Isabelle
  imports Complex_Main
begin

section \<open>Values, errors and host functions\<close>

text \<open>
  The model follows the second (particle-enabled) version of \<^verbatim>\<open>script.js\<close>.
  JavaScript numbers are idealised as real numbers. A call that can throw returns a
  value of type \<open>error + 'a\<close>, with \<open>Inl\<close> for the exception.
\<close>

datatype error = SyntaxError string | TypeError string | JsError string

text \<open>
  The value that \<^verbatim>\<open>JSON.parse\<close> returns. \<open>JObj\<close> lists the own properties of the
  object in enumeration order, with distinct keys.
\<close>

datatype json =
    JNull
  | JBool bool
  | JNum real
  | JStr string
  | JArr "json list"
  | JObj "(string \<times> json) list"

type_synonym scope = "string \<rightharpoonup> json"

text \<open>
  A compiled math.js expression: its \<^verbatim>\<open>evaluate(scope)\<close> method either throws or
  returns a number.
\<close>

type_synonym compiled = "scope \<Rightarrow> error + real"


record vec =
  vdx :: real
  vdy :: real

definition zero_vec :: vec where
  "zero_vec = \<lparr>vdx = 0, vdy = 0\<rparr>"

type_synonym evaluator = "real \<Rightarrow> real \<Rightarrow> error + vec"

section \<open>Particles\<close>

record particle =
  px :: real
  py :: real
  color :: string
  trajectory :: "(real \<times> real) list"
  active :: bool
  pid :: real

text \<open>The constructor; \<open>ident\<close> stands for \<^verbatim>\<open>Date.now() + Math.random()\<close>.\<close>

definition Particle :: "real \<Rightarrow> real \<Rightarrow> string \<Rightarrow> real \<Rightarrow> particle" where
  "Particle x y c ident =
     \<lparr>px = x, py = y, color = c, trajectory = [(x, y)], active = True, pid = ident\<rparr>"

text \<open>
  \<^verbatim>\<open>Particle.update(dt, evaluator)\<close>. The fields are assigned only after the four
  evaluator calls, so an exception thrown by the evaluator leaves the particle as it was.
\<close>

definition Particle_update :: "real \<Rightarrow> evaluator \<Rightarrow> particle \<Rightarrow> error + particle" where
  "Particle_update dt ev p =
     (if \<not> active p then Inr p
      else case ev (px p) (py p) of Inl e \<Rightarrow> Inl e | Inr k1 \<Rightarrow>
        (case ev (px p + vdx k1 * dt / 2) (py p + vdy k1 * dt / 2) of Inl e \<Rightarrow> Inl e | Inr k2 \<Rightarrow>
        (case ev (px p + vdx k2 * dt / 2) (py p + vdy k2 * dt / 2) of Inl e \<Rightarrow> Inl e | Inr k3 \<Rightarrow>
        (case ev (px p + vdx k3 * dt) (py p + vdy k3 * dt) of Inl e \<Rightarrow> Inl e | Inr k4 \<Rightarrow>
          (let ddx = (vdx k1 + 2 * vdx k2 + 2 * vdx k3 + vdx k4) / 6;
               ddy = (vdy k1 + 2 * vdy k2 + 2 * vdy k3 + vdy k4) / 6;
               x' = px p + ddx * dt;
               y' = py p + ddy * dt;
               p' = p\<lparr>px := x', py := y', trajectory := trajectory p @ [(x', y')]\<rparr>
           in Inr (if x' < -10 \<or> x' > 10 \<or> y' < -10 \<or> y' > 10
                   then p'\<lparr>active := False\<rparr> else p'))))))"

text \<open>
  The operations of the source that touch an existing particle: \<^verbatim>\<open>update\<close>,
  \<^verbatim>\<open>draw\<close> (which only reads it) and the body of \<^verbatim>\<open>clearTrajectories\<close>.
\<close>

datatype particle_op = OpUpdate real evaluator | OpDraw | OpClearTrajectory

definition clearTrajectory :: "particle \<Rightarrow> particle" where
  "clearTrajectory p = p\<lparr>trajectory := [(px p, py p)]\<rparr>"

fun apply_op :: "particle_op \<Rightarrow> particle \<Rightarrow> particle" where
  "apply_op (OpUpdate dt ev) p = (case Particle_update dt ev p of Inl e \<Rightarrow> p | Inr p' \<Rightarrow> p')"
| "apply_op OpDraw p = p"
| "apply_op OpClearTrajectory p = clearTrajectory p"

fun apply_ops :: "particle_op list \<Rightarrow> particle \<Rightarrow> particle" where
  "apply_ops [] p = p"
| "apply_ops (oper # ops) p = apply_ops ops (apply_op oper p)"

section \<open>The visualizer state\<close>

record visualizer =
  dxdt :: "compiled option"
  dydt :: "compiled option"
  parameters :: json
  xMin :: real
  xMax :: real
  yMin :: real
  yMax :: real
  gridDensity :: nat
  arrowScale :: real
  showGrid :: bool
  showNullclines :: bool
  particles :: "particle list"
  colorIndex :: nat
  simulationRunning :: bool
  simulationSpeed :: real
  canvasWidth :: real
  canvasHeight :: real

text \<open>The state the constructor leaves, for a canvas of the given size.\<close>

definition initialVisualizer :: "real \<Rightarrow> real \<Rightarrow> visualizer" where
  "initialVisualizer w h =
     \<lparr>dxdt = None, dydt = None, parameters = JObj [],
      xMin = -5, xMax = 5, yMin = -5, yMax = 5,
      gridDensity = 20, arrowScale = 0.5, showGrid = True, showNullclines = False,
      particles = [], colorIndex = 0, simulationRunning = False, simulationSpeed = 0.05,
      canvasWidth = w, canvasHeight = h\<rparr>"

subsection \<open>Evaluating the system\<close>

text \<open>Decimal digits of an array index, as a property key.\<close>

fun index_key :: "nat \<Rightarrow> string" where
  "index_key n =
     (if n < 10 then [char_of (48 + n)]
      else index_key (n div 10) @ [char_of (48 + n mod 10)])"

text \<open>
  The own enumerable properties that the object spread \<^verbatim>\<open>...this.parameters\<close> copies:
  the entries of an object, the indexed elements of an array or string, nothing for
  null, a boolean or a number.
\<close>

fun own_props :: "json \<Rightarrow> (string \<times> json) list" where
  "own_props (JObj kvs) = kvs"
| "own_props (JArr vs) = zip (map index_key [0..<length vs]) vs"
| "own_props (JStr s) = zip (map index_key [0..<length s]) (map (\<lambda>c. JStr [c]) s)"
| "own_props _ = []"

text \<open>\<^verbatim>\<open>{ x: x, y: y, ...this.parameters }\<close>: a parameter named x or y overrides the coordinate.\<close>

definition make_scope :: "real \<Rightarrow> real \<Rightarrow> json \<Rightarrow> scope" where
  "make_scope x y params = [''x'' \<mapsto> JNum x, ''y'' \<mapsto> JNum y] ++ map_of (own_props params)"

text \<open>\<^verbatim>\<open>try { body } catch (error) { handler }\<close>.\<close>

definition try_catch :: "error + 'a \<Rightarrow> (error \<Rightarrow> error + 'a) \<Rightarrow> error + 'a" where
  "try_catch body handler = (case body of Inl e \<Rightarrow> handler e | Inr v \<Rightarrow> Inr v)"

definition evaluateSystem :: "visualizer \<Rightarrow> real \<Rightarrow> real \<Rightarrow> error + vec" where
  "evaluateSystem st x y =
     (case (dxdt st, dydt st) of
        (Some f, Some g) \<Rightarrow>
          try_catch
            (let sc = make_scope x y (parameters st) in
             case f sc of Inl e \<Rightarrow> Inl e | Inr vx \<Rightarrow>
               (case g sc of Inl e \<Rightarrow> Inl e | Inr vy \<Rightarrow> Inr \<lparr>vdx = vx, vdy = vy\<rparr>))
            (\<lambda>e. Inr zero_vec)
      | _ \<Rightarrow> Inr zero_vec)"

subsection \<open>Projection between world and canvas coordinates\<close>

definition worldToCanvasX :: "visualizer \<Rightarrow> real \<Rightarrow> real" where
  "worldToCanvasX st x = ((x - xMin st) / (xMax st - xMin st)) * canvasWidth st"

definition worldToCanvasY :: "visualizer \<Rightarrow> real \<Rightarrow> real" where
  "worldToCanvasY st y =
     canvasHeight st - ((y - yMin st) / (yMax st - yMin st)) * canvasHeight st"

definition canvasToWorldX :: "visualizer \<Rightarrow> real \<Rightarrow> real" where
  "canvasToWorldX st cx = xMin st + (cx / canvasWidth st) * (xMax st - xMin st)"

definition canvasToWorldY :: "visualizer \<Rightarrow> real \<Rightarrow> real" where
  "canvasToWorldY st cy =
     yMin st + ((canvasHeight st - cy) / canvasHeight st) * (yMax st - yMin st)"

subsection \<open>Sampling the flow field\<close>

text \<open>A call \<^verbatim>\<open>drawArrow(x1, y1, x2, y2)\<close>, in canvas coordinates.\<close>

record arrow =
  from_x :: real
  from_y :: real
  to_x :: real
  to_y :: real

text \<open>
  A \<^verbatim>\<open>for\<close> loop over a list of indices whose body may throw: the results of the
  iterations in order, or the first exception.
\<close>

fun for_each :: "'a list \<Rightarrow> ('a \<Rightarrow> error + 'b) \<Rightarrow> error + 'b list" where
  "for_each [] body = Inr []"
| "for_each (i # is) body =
     (case body i of Inl e \<Rightarrow> Inl e | Inr r \<Rightarrow>
        (case for_each is body of Inl e \<Rightarrow> Inl e | Inr rs \<Rightarrow> Inr (r # rs)))"

text \<open>
  The body of the inner loop of \<^verbatim>\<open>drawFlowField\<close> at indices \<open>i\<close>, \<open>j\<close>: the grid point
  passed to \<^verbatim>\<open>evaluateSystem\<close> and the \<^verbatim>\<open>drawArrow\<close> call made for it, if any.
\<close>

definition flowFieldCell ::
  "visualizer \<Rightarrow> nat \<Rightarrow> nat \<Rightarrow> error + ((real \<times> real) \<times> arrow option)" where
  "flowFieldCell st i j =
     (let stepX = (xMax st - xMin st) / real (gridDensity st);
          stepY = (yMax st - yMin st) / real (gridDensity st);
          x = xMin st + real i * stepX;
          y = yMin st + real j * stepY
      in case evaluateSystem st x y of Inl e \<Rightarrow> Inl e | Inr v \<Rightarrow>
        (let magnitude = sqrt (vdx v * vdx v + vdy v * vdy v) in
         if magnitude > 0 then
           (let scale = arrowScale st * 20;
                normalizedDx = (vdx v / magnitude) * scale;
                normalizedDy = (vdy v / magnitude) * scale;
                startX = worldToCanvasX st x;
                startY = worldToCanvasY st y;
                endX = startX + normalizedDx;
                endY = startY - normalizedDy
            in Inr ((x, y),
                 Some \<lparr>from_x = startX, from_y = startY, to_x = endX, to_y = endY\<rparr>))
         else Inr ((x, y), None)))"

definition drawFlowField :: "visualizer \<Rightarrow> error + ((real \<times> real) \<times> arrow option) list" where
  "drawFlowField st =
     (case for_each [0..<Suc (gridDensity st)]
             (\<lambda>i. for_each [0..<Suc (gridDensity st)] (\<lambda>j. flowFieldCell st i j)) of
        Inl e \<Rightarrow> Inl e
      | Inr rows \<Rightarrow> Inr (concat rows))"

subsection \<open>Nullclines\<close>


text \<open>\<^verbatim>\<open>const value = isDxDt ? dx : dy\<close>.\<close>

definition component :: "bool \<Rightarrow> vec \<Rightarrow> real" where
  "component isDxDt v = (if isDxDt then vdx v else vdy v)"

text \<open>
  The inner loop of \<^verbatim>\<open>drawNullcline\<close> from the current \<open>y\<close> on: the \<open>y\<close> at which it
  breaks, or no hit when it runs past \<open>yMax\<close>. The loop need not end (the step is zero
  when \<open>yMax = yMin\<close>), so not returning is the value \<open>None\<close>.
\<close>

partial_function (option) nullclineScan ::
  "visualizer \<Rightarrow> bool \<Rightarrow> real \<Rightarrow> real \<Rightarrow> (error + real option) option" where
  "nullclineScan st isDxDt x y =
     (if y \<le> yMax st then
        (case evaluateSystem st x y of
           Inl e \<Rightarrow> Some (Inl e)
         | Inr v \<Rightarrow>
             if \<bar>component isDxDt v\<bar> < 0.05 then Some (Inr (Some y))
             else nullclineScan st isDxDt x (y + (yMax st - yMin st) / 100))
      else Some (Inr None))"



subsection \<open>Updating the system\<close>









subsection \<open>The simulation loop\<close>

text \<open>
  \<^verbatim>\<open>this.particles.forEach(particle => particle.update(...))\<close>: the particles after the
  loop, and the exception that stopped it, if any. Particles before the failing one have
  already been updated in place.
\<close>

fun forEach_update :: "real \<Rightarrow> evaluator \<Rightarrow> particle list \<Rightarrow> particle list \<times> error option" where
  "forEach_update dt ev [] = ([], None)"
| "forEach_update dt ev (p # ps) =
     (case Particle_update dt ev p of
        Inl e \<Rightarrow> (p # ps, Some e)
      | Inr p' \<Rightarrow> (case forEach_update dt ev ps of (ps', r) \<Rightarrow> (p' # ps', r)))"

text \<open>
  \<^verbatim>\<open>simulateStep\<close>: the state afterwards, and either the exception that escaped or
  whether \<^verbatim>\<open>requestAnimationFrame\<close> was called to schedule the next step.
\<close>

definition simulateStep :: "visualizer \<Rightarrow> visualizer \<times> (error + bool)" where
  "simulateStep st =
     (if \<not> simulationRunning st then (st, Inr False)
      else case forEach_update (simulationSpeed st) (evaluateSystem st) (particles st) of
        (ps, Some e) \<Rightarrow> (st\<lparr>particles := ps\<rparr>, Inl e)
      | (ps, None) \<Rightarrow>
          (let st1 = st\<lparr>particles := filter active ps\<rparr> in
           if length (particles st1) > 0 \<and> list_ex active (particles st1)
           then (st1, Inr True)
           else (st1\<lparr>simulationRunning := False\<rparr>, Inr False)))"

definition startSimulation :: "visualizer \<Rightarrow> visualizer \<times> (error + bool)" where
  "startSimulation st =
     (if simulationRunning st then (st, Inr False)
      else simulateStep (st\<lparr>simulationRunning := True\<rparr>))"

section \<open>Auxiliary notions and example inputs\<close>

text \<open>The vector that \<open>evaluateSystem\<close> hands to its caller.\<close>

definition field :: "visualizer \<Rightarrow> real \<Rightarrow> real \<Rightarrow> vec" where
  "field st x y = (case evaluateSystem st x y of Inl e \<Rightarrow> zero_vec | Inr v \<Rightarrow> v)"

text \<open>The result of a single \<^verbatim>\<open>update\<close> call made by the simulation loop.\<close>

definition advance :: "visualizer \<Rightarrow> particle \<Rightarrow> particle" where
  "advance st p = apply_op (OpUpdate (simulationSpeed st) (evaluateSystem st)) p"

text \<open>Notions used to state the sampling of the flow field.\<close>

definition magnitude :: "vec \<Rightarrow> real" where
  "magnitude v = sqrt (vdx v * vdx v + vdy v * vdy v)"

definition grid_x :: "visualizer \<Rightarrow> nat \<Rightarrow> real" where
  "grid_x st i = xMin st + real i * ((xMax st - xMin st) / real (gridDensity st))"

definition grid_y :: "visualizer \<Rightarrow> nat \<Rightarrow> real" where
  "grid_y st j = yMin st + real j * ((yMax st - yMin st) / real (gridDensity st))"

definition sampled_points :: "visualizer \<Rightarrow> (real \<times> real) list" where
  "sampled_points st = (case drawFlowField st of Inl e \<Rightarrow> [] | Inr tr \<Rightarrow> map fst tr)"

definition arrow_points :: "visualizer \<Rightarrow> (real \<times> real) list" where
  "arrow_points st =
     (case drawFlowField st of Inl e \<Rightarrow> []
      | Inr tr \<Rightarrow> map fst (filter (\<lambda>(pt, a). a \<noteq> None) tr))"

definition cell_arrow :: "visualizer \<Rightarrow> real \<Rightarrow> real \<Rightarrow> arrow option" where
  "cell_arrow st x y =
     (let v = field st x y in
      if magnitude v > 0 then
        Some \<lparr>from_x = worldToCanvasX st x, from_y = worldToCanvasY st y,
              to_x = worldToCanvasX st x + (vdx v / magnitude v) * (arrowScale st * 20),
              to_y = worldToCanvasY st y - (vdy v / magnitude v) * (arrowScale st * 20)\<rparr>
      else None)"



definition near_zero :: "visualizer \<Rightarrow> bool \<Rightarrow> real \<Rightarrow> real \<Rightarrow> bool" where
  "near_zero st isDxDt x y \<longleftrightarrow> \<bar>component isDxDt (field st x y)\<bar> < 0.05"






text \<open>The value of a symbol of the scope, as a compiled expression reads it.\<close>

definition lookup_number :: "scope \<Rightarrow> string \<Rightarrow> error + real" where
  "lookup_number sc name =
     (case sc name of Some (JNum v) \<Rightarrow> Inr v
      | _ \<Rightarrow> Inl (JsError (''Undefined symbol '' @ name)))"

text \<open>
  The system \<open>dx/dt = 1\<close>, \<open>dy/dt = mu\<close> with an empty parameter object: evaluating the
  second equation fails with an undefined symbol.
\<close>

definition sys_missing_mu :: visualizer where
  "sys_missing_mu = (initialVisualizer 600 600)
     \<lparr>dxdt := Some (\<lambda>sc. Inr 1), dydt := Some (\<lambda>sc. lookup_number sc ''mu'')\<rparr>"

text \<open>
  The same system with the parameter object \<open>{mu: 1}\<close>, one particle at the origin and
  the simulation running.
\<close>

definition sys_with_mu :: visualizer where
  "sys_with_mu = (initialVisualizer 600 600)
     \<lparr>dxdt := Some (\<lambda>sc. Inr 1), dydt := Some (\<lambda>sc. lookup_number sc ''mu''),
      parameters := JObj [(''mu'', JNum 1)],
      particles := [Particle 0 0 ''#e74c3c'' 1],
      colorIndex := 1,
      simulationRunning := True\<rparr>"

text \<open>The constant field \<open>(1, 0)\<close> on the default viewport, sampled with grid density 1.\<close>

definition const_flow :: visualizer where
  "const_flow = (initialVisualizer 600 600)
     \<lparr>dxdt := Some (\<lambda>sc. Inr 1), dydt := Some (\<lambda>sc. Inr 0), gridDensity := 1\<rparr>"


text \<open>An evaluator for the constant field \<open>(10, 0)\<close>.\<close>

definition drift_right :: evaluator where
  "drift_right x y = Inr \<lparr>vdx = 10, vdy = 0\<rparr>"

text \<open>A particle close to the right bound, and the same particle one step later.\<close>

definition near_bound :: particle where
  "near_bound = Particle 9.9 0 ''#e74c3c'' 1"

definition past_bound :: particle where
  "past_bound = \<lparr>px = 10.4, py = 0, color = ''#e74c3c'',
                  trajectory = [(9.9, 0), (10.4, 0)], active = False, pid = 1\<rparr>"

section \<open>Properties\<close>

subsection \<open>Evaluation\<close>

lemma evaluateSystem_returns: "evaluateSystem st x y = Inr (field st x y)"
  by (simp add: field_def evaluateSystem_def try_catch_def Let_def
      split: option.splits sum.splits)

text \<open>
  Claim C1. \<open>evaluateSystem\<close> always returns a pair and never throws. For a compiled
  system the pair consists of the two values when both expressions evaluate at the point,
  and is \<open>{dx: 0, dy: 0}\<close> as soon as one of the two evaluations fails.
\<close>

theorem evaluateSystem_absorbs_failures:
  "(\<exists>v. evaluateSystem st x y = Inr v) \<and>
   (dxdt st = Some f \<longrightarrow> dydt st = Some g \<longrightarrow>
      evaluateSystem st x y =
        (case f (make_scope x y (parameters st)) of
           Inl e \<Rightarrow> Inr zero_vec
         | Inr vx \<Rightarrow>
             (case g (make_scope x y (parameters st)) of
                Inl e \<Rightarrow> Inr zero_vec
              | Inr vy \<Rightarrow> Inr \<lparr>vdx = vx, vdy = vy\<rparr>)))"
  by (simp add: evaluateSystem_def try_catch_def Let_def split: option.splits sum.splits)

theorem evaluateSystem_absorbs_failures_witness:
  "dxdt sys_missing_mu \<noteq> None \<and> dydt sys_missing_mu \<noteq> None
   \<and> evaluateSystem sys_missing_mu 1 2 = Inr zero_vec"
  using evaluateSystem_absorbs_failures [of sys_missing_mu 1 2 "\<lambda>sc. Inr 1"
      "\<lambda>sc. lookup_number sc ''mu''"]
  by (simp add: sys_missing_mu_def initialVisualizer_def make_scope_def lookup_number_def)

text \<open>
  Claim C10. While one of the two compiled expressions is still null, \<open>evaluateSystem\<close>
  returns \<open>{dx: 0, dy: 0}\<close> at every point.
\<close>

theorem evaluateSystem_uncompiled_zero:
  "dxdt st = None \<or> dydt st = None \<Longrightarrow> evaluateSystem st x y = Inr zero_vec"
  by (auto simp: evaluateSystem_def split: option.splits)

theorem evaluateSystem_uncompiled_zero_witness:
  "dxdt (initialVisualizer 600 600) = None
   \<and> evaluateSystem (initialVisualizer 600 600) 3 (-2) = Inr zero_vec"
  using evaluateSystem_uncompiled_zero [of "initialVisualizer 600 600" 3 "-2"]
  by (simp add: initialVisualizer_def)

subsection \<open>Projection\<close>

text \<open>
  Claim C9. For a viewport with \<open>xMin < xMax\<close> and \<open>yMin < yMax\<close> and a canvas of positive
  width and height, world-to-canvas and canvas-to-world are inverse to each other on
  both axes.
\<close>

theorem projection_roundtrip:
  assumes "xMin st < xMax st" and "yMin st < yMax st"
    and "0 < canvasWidth st" and "0 < canvasHeight st"
  shows "canvasToWorldX st (worldToCanvasX st x) = x
       \<and> canvasToWorldY st (worldToCanvasY st y) = y
       \<and> worldToCanvasX st (canvasToWorldX st cx) = cx
       \<and> worldToCanvasY st (canvasToWorldY st cy) = cy"
  using assms
  by (simp add: canvasToWorldX_def worldToCanvasX_def canvasToWorldY_def worldToCanvasY_def
      field_simps)

theorem projection_roundtrip_witness:
  "xMin (initialVisualizer 600 400) < xMax (initialVisualizer 600 400)
   \<and> yMin (initialVisualizer 600 400) < yMax (initialVisualizer 600 400)
   \<and> 0 < canvasWidth (initialVisualizer 600 400)
   \<and> 0 < canvasHeight (initialVisualizer 600 400)
   \<and> canvasToWorldX (initialVisualizer 600 400) (worldToCanvasX (initialVisualizer 600 400) 2) = 2
   \<and> canvasToWorldY (initialVisualizer 600 400) (worldToCanvasY (initialVisualizer 600 400) 3) = 3"
  using projection_roundtrip [of "initialVisualizer 600 400" 2 3]
  by (simp add: initialVisualizer_def)

subsection \<open>Particle integration\<close>

lemma Particle_update_inactive: "\<not> active p \<Longrightarrow> Particle_update dt ev p = Inr p"
  by (simp add: Particle_update_def)

lemma Particle_update_active:
  assumes "active p"
    and "ev (px p) (py p) = Inr k1"
    and "ev (px p + vdx k1 * dt / 2) (py p + vdy k1 * dt / 2) = Inr k2"
    and "ev (px p + vdx k2 * dt / 2) (py p + vdy k2 * dt / 2) = Inr k3"
    and "ev (px p + vdx k3 * dt) (py p + vdy k3 * dt) = Inr k4"
  shows "Particle_update dt ev p =
     (let x' = px p + (vdx k1 + 2 * vdx k2 + 2 * vdx k3 + vdx k4) / 6 * dt;
          y' = py p + (vdy k1 + 2 * vdy k2 + 2 * vdy k3 + vdy k4) / 6 * dt
      in Inr (p\<lparr>px := x', py := y', trajectory := trajectory p @ [(x', y')],
               active := \<not> (x' < -10 \<or> x' > 10 \<or> y' < -10 \<or> y' > 10)\<rparr>))"
  using assms by (simp add: Particle_update_def Let_def)

lemma Particle_update_Inr_cases:
  assumes "Particle_update dt ev p = Inr p'"
  shows "(\<not> active p \<and> p' = p) \<or>
     (active p \<and> (\<exists>x' y'. p' = p\<lparr>px := x', py := y', trajectory := trajectory p @ [(x', y')],
               active := \<not> (x' < -10 \<or> x' > 10 \<or> y' < -10 \<or> y' > 10)\<rparr>))"
proof (cases "active p")
  case False
  with assms show ?thesis by (simp add: Particle_update_def)
next
  case True
  from assms True obtain k1 where k1: "ev (px p) (py p) = Inr k1"
    by (cases "ev (px p) (py p)") (simp_all add: Particle_update_def)
  from assms True k1 obtain k2
    where k2: "ev (px p + vdx k1 * dt / 2) (py p + vdy k1 * dt / 2) = Inr k2"
    by (cases "ev (px p + vdx k1 * dt / 2) (py p + vdy k1 * dt / 2)")
       (simp_all add: Particle_update_def)
  from assms True k1 k2 obtain k3
    where k3: "ev (px p + vdx k2 * dt / 2) (py p + vdy k2 * dt / 2) = Inr k3"
    by (cases "ev (px p + vdx k2 * dt / 2) (py p + vdy k2 * dt / 2)")
       (simp_all add: Particle_update_def)
  from assms True k1 k2 k3 obtain k4
    where k4: "ev (px p + vdx k3 * dt) (py p + vdy k3 * dt) = Inr k4"
    by (cases "ev (px p + vdx k3 * dt) (py p + vdy k3 * dt)")
       (simp_all add: Particle_update_def)
  from assms Particle_update_active [OF True k1 k2 k3 k4]
  show ?thesis using True by (auto simp: Let_def)
qed

lemma apply_op_inactive: "\<not> active p \<Longrightarrow> \<not> active (apply_op oper p)"
  by (cases oper) (simp_all add: Particle_update_inactive clearTrajectory_def)

lemma apply_ops_inactive: "\<not> active p \<Longrightarrow> \<not> active (apply_ops ops p)"
  by (induction ops arbitrary: p) (simp_all add: apply_op_inactive)

text \<open>
  Claim C2. An integration step is an \<open>update\<close> call on an active particle (on an
  inactive one \<open>update\<close> returns at once). One integration step, with an evaluator that returns
  \<open>k1\<close>, \<open>k2\<close>, \<open>k3\<close>, \<open>k4\<close> at the four Runge-Kutta stages, moves the particle to
  \<open>p + dt * (k1 + 2 * k2 + 2 * k3 + k4) / 6\<close> componentwise and appends the new position to
  the trajectory, whether or not the new position is inside the bound; the earlier
  trajectory entries stay as they were.
\<close>

theorem Particle_update_rk4:
  assumes "active p"
    and "ev (px p) (py p) = Inr k1"
    and "ev (px p + vdx k1 * dt / 2) (py p + vdy k1 * dt / 2) = Inr k2"
    and "ev (px p + vdx k2 * dt / 2) (py p + vdy k2 * dt / 2) = Inr k3"
    and "ev (px p + vdx k3 * dt) (py p + vdy k3 * dt) = Inr k4"
  shows "\<exists>p'. Particle_update dt ev p = Inr p'
    \<and> px p' = px p + dt * (vdx k1 + 2 * vdx k2 + 2 * vdx k3 + vdx k4) / 6
    \<and> py p' = py p + dt * (vdy k1 + 2 * vdy k2 + 2 * vdy k3 + vdy k4) / 6
    \<and> trajectory p' = trajectory p @ [(px p', py p')]
    \<and> (\<forall>i < length (trajectory p). trajectory p' ! i = trajectory p ! i)"
  by (simp add: Particle_update_active [OF assms] Let_def nth_append)

theorem Particle_update_rk4_witness:
  "active (Particle 9.9 0 ''#e74c3c'' 1)
   \<and> (\<exists>p'. Particle_update 0.05 drift_right (Particle 9.9 0 ''#e74c3c'' 1) = Inr p'
        \<and> px p' = 10.4 \<and> py p' = 0 \<and> trajectory p' = [(9.9, 0), (10.4, 0)]
        \<and> \<not> active p')"
proof -
  let ?p = "Particle 9.9 0 ''#e74c3c'' 1"
  let ?k = "\<lparr>vdx = 10, vdy = 0\<rparr>"
  have a: "active ?p" by (simp add: Particle_def)
  have e: "\<And>x y. drift_right x y = Inr ?k" by (simp add: drift_right_def)
  from Particle_update_rk4 [of ?p drift_right ?k "0.05" ?k ?k ?k, OF a e e e e]
  obtain p' where p': "Particle_update 0.05 drift_right ?p = Inr p'"
    "px p' = px ?p + 0.05 * (vdx ?k + 2 * vdx ?k + 2 * vdx ?k + vdx ?k) / 6"
    "py p' = py ?p + 0.05 * (vdy ?k + 2 * vdy ?k + 2 * vdy ?k + vdy ?k) / 6"
    "trajectory p' = trajectory ?p @ [(px p', py p')]"
    by blast
  have "px p' = 10.4" "py p' = 0" using p'(2,3) by (simp_all add: Particle_def)
  moreover have "\<not> active p'"
    using p'(1) by (simp add: Particle_update_def Particle_def drift_right_def Let_def) auto
  ultimately show ?thesis using a p'(1,4) by (simp add: Particle_def)
qed

text \<open>
  Claim C5. After an integration step of an active particle the flag \<open>active\<close> is false
  exactly when the new position has \<open>|x| > 10\<close> or \<open>|y| > 10\<close>. An update of an inactive
  particle returns the particle unchanged, and no sequence of operations on a particle
  (update, draw, clearing its trajectory) makes an inactive particle active again.
\<close>

theorem Particle_deactivation:
  "(Particle_update dt ev p = Inr p' \<longrightarrow> active p \<longrightarrow>
      (active p' \<longleftrightarrow> \<not> (\<bar>px p'\<bar> > 10 \<or> \<bar>py p'\<bar> > 10)))
   \<and> (\<not> active p \<longrightarrow> Particle_update dt ev p = Inr p)
   \<and> (\<not> active p \<longrightarrow> \<not> active (apply_ops ops p))"
proof (intro conjI impI)
  assume u: "Particle_update dt ev p = Inr p'" and a: "active p"
  from Particle_update_Inr_cases [OF u] a
  obtain x' y' where "p' = p\<lparr>px := x', py := y', trajectory := trajectory p @ [(x', y')],
               active := \<not> (x' < -10 \<or> x' > 10 \<or> y' < -10 \<or> y' > 10)\<rparr>"
    by blast
  then show "active p' \<longleftrightarrow> \<not> (\<bar>px p'\<bar> > 10 \<or> \<bar>py p'\<bar> > 10)"
    by (simp add: abs_if) linarith
next
  assume "\<not> active p"
  then show "Particle_update dt ev p = Inr p" by (rule Particle_update_inactive)
next
  assume "\<not> active p"
  then show "\<not> active (apply_ops ops p)" by (rule apply_ops_inactive)
qed

theorem Particle_deactivation_witness:
  "active near_bound
   \<and> Particle_update 0.05 drift_right near_bound = Inr past_bound
   \<and> \<not> active past_bound \<and> \<bar>px past_bound\<bar> > 10
   \<and> Particle_update 0.05 drift_right past_bound = Inr past_bound
   \<and> \<not> active (apply_ops [OpUpdate 0.05 drift_right, OpClearTrajectory, OpDraw] past_bound)"
proof -
  have a: "active near_bound" by (simp add: near_bound_def Particle_def)
  have u: "Particle_update 0.05 drift_right near_bound = Inr past_bound"
    by (simp add: Particle_update_def near_bound_def Particle_def drift_right_def
        past_bound_def Let_def)
  have i: "\<not> active past_bound" by (simp add: past_bound_def)
  have b: "\<bar>px past_bound\<bar> > 10" by (simp add: past_bound_def)
  from Particle_deactivation [of "0.05" drift_right past_bound past_bound
      "[OpUpdate 0.05 drift_right, OpClearTrajectory, OpDraw]"] i
  have "Particle_update 0.05 drift_right past_bound = Inr past_bound"
    and "\<not> active (apply_ops [OpUpdate 0.05 drift_right, OpClearTrajectory, OpDraw] past_bound)"
    by blast+
  moreover from Particle_deactivation [of "0.05" drift_right near_bound past_bound "[]"] u a
  have "active past_bound \<longleftrightarrow> \<not> (\<bar>px past_bound\<bar> > 10 \<or> \<bar>py past_bound\<bar> > 10)"
    by blast
  ultimately show ?thesis using a u i b by blast
qed

subsection \<open>The simulation loop\<close>

lemma Particle_update_system:
  "\<exists>p'. Particle_update dt (evaluateSystem st) p = Inr p'"
  by (simp add: Particle_update_def evaluateSystem_returns Let_def)

lemma forEach_update_system:
  "forEach_update dt (evaluateSystem st) ps =
     (map (apply_op (OpUpdate dt (evaluateSystem st))) ps, None)"
proof (induction ps)
  case Nil
  show ?case by simp
next
  case (Cons p ps)
  obtain p' where "Particle_update dt (evaluateSystem st) p = Inr p'"
    using Particle_update_system by blast
  with Cons show ?case by simp
qed

lemma list_ex_active_filter: "list_ex active (filter active ps) \<longleftrightarrow> filter active ps \<noteq> []"
  by (induction ps) auto

text \<open>
  Claim C8. A simulation step taken while the simulation is running calls \<open>update\<close> once
  on every particle of the collection, keeps exactly the particles that are active
  afterwards, and schedules the next step if and only if an active particle remains;
  otherwise it clears \<open>simulationRunning\<close> and schedules nothing. Nothing else of the
  state changes, and no exception escapes.
\<close>

theorem simulateStep_tick:
  assumes "simulationRunning st"
  shows "\<exists>st' resched. simulateStep st = (st', Inr resched)
    \<and> particles st' = filter active (map (advance st) (particles st))
    \<and> (resched \<longleftrightarrow> (\<exists>p \<in> set (particles st'). active p))
    \<and> (simulationRunning st' \<longleftrightarrow> resched)
    \<and> st' = st\<lparr>particles := particles st', simulationRunning := resched\<rparr>"
proof -
  let ?ps = "filter active (map (advance st) (particles st))"
  have fe: "forEach_update (simulationSpeed st) (evaluateSystem st) (particles st)
      = (map (advance st) (particles st), None)"
    unfolding advance_def by (rule forEach_update_system)
  have ex: "(\<exists>p \<in> set ?ps. active p) \<longleftrightarrow> ?ps \<noteq> []"
    by (auto simp: filter_empty_conv)
  show ?thesis
  proof (cases "?ps = []")
    case True
    then have "simulateStep st = (st\<lparr>particles := ?ps, simulationRunning := False\<rparr>, Inr False)"
      using assms by (simp add: simulateStep_def fe Let_def)
    then show ?thesis using True by simp
  next
    case False
    then have "simulateStep st = (st\<lparr>particles := ?ps\<rparr>, Inr True)"
      using assms by (simp add: simulateStep_def fe Let_def list_ex_active_filter)
    moreover have "\<exists>p \<in> set ?ps. active p" using False ex by blast
    ultimately show ?thesis using assms by simp
  qed
qed

theorem simulateStep_tick_witness:
  "simulationRunning sys_with_mu
   \<and> (\<exists>st'. simulateStep sys_with_mu = (st', Inr True)
         \<and> particles st' = filter active (map (advance sys_with_mu) (particles sys_with_mu))
         \<and> simulationRunning st')"
proof -
  have r: "simulationRunning sys_with_mu" by (simp add: sys_with_mu_def)
  from simulateStep_tick [OF r] obtain st' resched where
    s: "simulateStep sys_with_mu = (st', Inr resched)"
      "particles st' = filter active (map (advance sys_with_mu) (particles sys_with_mu))"
      "resched \<longleftrightarrow> (\<exists>p \<in> set (particles st'). active p)"
      "simulationRunning st' \<longleftrightarrow> resched"
    by blast
  have "particles st' \<noteq> []"
    unfolding s(2)
    by (simp add: sys_with_mu_def initialVisualizer_def advance_def Particle_def
        Particle_update_def evaluateSystem_def make_scope_def try_catch_def Let_def
        lookup_number_def)
  then have resched using s(2,3) by (auto simp: filter_empty_conv)
  with r s show ?thesis by auto
qed

subsection \<open>Updating the system\<close>






subsection \<open>Sampling the flow field\<close>

lemma for_each_Inr:
  "(\<And>i. i \<in> set xs \<Longrightarrow> body i = Inr (g i)) \<Longrightarrow> for_each xs body = Inr (map g xs)"
  by (induction xs) simp_all

lemma flowFieldCell_eq:
  "flowFieldCell st i j =
     Inr ((grid_x st i, grid_y st j), cell_arrow st (grid_x st i) (grid_y st j))"
  by (simp add: flowFieldCell_def evaluateSystem_returns cell_arrow_def magnitude_def
      grid_x_def grid_y_def Let_def)

lemma drawFlowField_eq:
  "drawFlowField st =
     Inr (concat (map (\<lambda>i. map (\<lambda>j. ((grid_x st i, grid_y st j),
                                    cell_arrow st (grid_x st i) (grid_y st j)))
                           [0..<Suc (gridDensity st)])
                 [0..<Suc (gridDensity st)]))"
proof -
  have inner: "\<And>i. for_each [0..<Suc (gridDensity st)] (\<lambda>j. flowFieldCell st i j)
      = Inr (map (\<lambda>j. ((grid_x st i, grid_y st j), cell_arrow st (grid_x st i) (grid_y st j)))
                [0..<Suc (gridDensity st)])"
    by (rule for_each_Inr) (rule flowFieldCell_eq)
  have "for_each [0..<Suc (gridDensity st)]
          (\<lambda>i. for_each [0..<Suc (gridDensity st)] (\<lambda>j. flowFieldCell st i j))
      = Inr (map (\<lambda>i. map (\<lambda>j. ((grid_x st i, grid_y st j),
                                 cell_arrow st (grid_x st i) (grid_y st j)))
                        [0..<Suc (gridDensity st)])
              [0..<Suc (gridDensity st)])"
    by (rule for_each_Inr) (rule inner)
  then show ?thesis by (simp add: drawFlowField_def)
qed

lemma concat_map_product:
  "concat (map (\<lambda>i. map (\<lambda>j. g i j) ys) xs) = map (\<lambda>(i, j). g i j) (List.product xs ys)"
  by (induction xs) (simp_all add: comp_def)

lemma grid_x_inj:
  assumes "xMin st < xMax st" and "0 < gridDensity st" and "grid_x st i = grid_x st i'"
  shows "i = i'"
proof -
  have "(xMax st - xMin st) / real (gridDensity st) \<noteq> 0" using assms(1,2) by simp
  with assms(3) show ?thesis by (simp add: grid_x_def)
qed

lemma grid_y_inj:
  assumes "yMin st < yMax st" and "0 < gridDensity st" and "grid_y st j = grid_y st j'"
  shows "j = j'"
proof -
  have "(yMax st - yMin st) / real (gridDensity st) \<noteq> 0" using assms(1,2) by simp
  with assms(3) show ?thesis by (simp add: grid_y_def)
qed

lemma grid_points_distinct:
  assumes "xMin st < xMax st" and "yMin st < yMax st" and "0 < gridDensity st"
  shows "distinct (map (\<lambda>(i, j). (grid_x st i, grid_y st j)) (List.product [0..<n] [0..<n]))"
proof -
  have "inj_on (\<lambda>(i, j). (grid_x st i, grid_y st j)) (set (List.product [0..<n] [0..<n]))"
    by (auto simp: inj_on_def dest: grid_x_inj [OF assms(1,3)] grid_y_inj [OF assms(2,3)])
  then show ?thesis by (simp add: distinct_map distinct_product)
qed

lemma scaled_square_sum:
  fixes a b s m :: real
  assumes "0 < m" and "m\<^sup>2 = a * a + b * b"
  shows "(a / m * s)\<^sup>2 + (b / m * s)\<^sup>2 = s\<^sup>2"
proof -
  have "(a / m * s)\<^sup>2 + (b / m * s)\<^sup>2 = (a * a + b * b) / m\<^sup>2 * s\<^sup>2"
    using assms(1) by (simp add: power2_eq_square field_simps)
  also have "\<dots> = m\<^sup>2 / m\<^sup>2 * s\<^sup>2" by (simp only: assms(2))
  also have "\<dots> = s\<^sup>2" using assms(1) by simp
  finally show ?thesis .
qed

lemma scaled_unit_length:
  fixes a b s :: real
  assumes "0 < sqrt (a * a + b * b)"
  shows "sqrt ((a / sqrt (a * a + b * b) * s)\<^sup>2 + (b / sqrt (a * a + b * b) * s)\<^sup>2) = \<bar>s\<bar>"
proof -
  have "(sqrt (a * a + b * b))\<^sup>2 = a * a + b * b" by simp
  from scaled_square_sum [OF assms this]
  show ?thesis by (simp only: real_sqrt_abs)
qed

lemma cell_arrow_None_iff:
  "cell_arrow st x y \<noteq> None \<longleftrightarrow> magnitude (field st x y) \<noteq> 0"
proof -
  have "0 \<le> magnitude (field st x y)" by (simp add: magnitude_def)
  then show ?thesis by (auto simp: cell_arrow_def Let_def)
qed

lemma cell_arrow_Some:
  assumes "cell_arrow st x y = Some ar"
  shows "from_x ar = worldToCanvasX st x \<and> from_y ar = worldToCanvasY st y
      \<and> to_x ar - from_x ar = vdx (field st x y) / magnitude (field st x y) * (arrowScale st * 20)
      \<and> from_y ar - to_y ar = vdy (field st x y) / magnitude (field st x y) * (arrowScale st * 20)
      \<and> sqrt ((to_x ar - from_x ar)\<^sup>2 + (to_y ar - from_y ar)\<^sup>2) = \<bar>arrowScale st * 20\<bar>"
proof -
  let ?v = "field st x y"
  from assms have pos: "0 < magnitude ?v" and
    ar: "ar = \<lparr>from_x = worldToCanvasX st x, from_y = worldToCanvasY st y,
              to_x = worldToCanvasX st x + (vdx ?v / magnitude ?v) * (arrowScale st * 20),
              to_y = worldToCanvasY st y - (vdy ?v / magnitude ?v) * (arrowScale st * 20)\<rparr>"
    by (auto simp: cell_arrow_def Let_def split: if_splits)
  have len: "sqrt ((vdx ?v / magnitude ?v * (arrowScale st * 20))\<^sup>2
          + (vdy ?v / magnitude ?v * (arrowScale st * 20))\<^sup>2) = \<bar>arrowScale st * 20\<bar>"
    using pos unfolding magnitude_def by (rule scaled_unit_length)
  have fx: "from_x ar = worldToCanvasX st x" by (simp add: ar)
  have fy: "from_y ar = worldToCanvasY st y" by (simp add: ar)
  have dx: "to_x ar - from_x ar = vdx ?v / magnitude ?v * (arrowScale st * 20)"
    by (simp add: ar)
  have dy: "from_y ar - to_y ar = vdy ?v / magnitude ?v * (arrowScale st * 20)"
    by (simp add: ar)
  have "(to_y ar - from_y ar)\<^sup>2 = (from_y ar - to_y ar)\<^sup>2" by (rule power2_commute)
  then have "sqrt ((to_x ar - from_x ar)\<^sup>2 + (to_y ar - from_y ar)\<^sup>2) = \<bar>arrowScale st * 20\<bar>"
    using len by (simp only: dx dy)
  with fx fy dx dy show ?thesis by (intro conjI)
qed

lemma const_flow_field: "evaluateSystem const_flow x y = Inr \<lparr>vdx = 1, vdy = 0\<rparr>"
  by (simp add: evaluateSystem_def const_flow_def initialVisualizer_def try_catch_def)

lemma drawFlowField_const_flow:
  "drawFlowField const_flow =
     Inr [((-5, -5), Some \<lparr>from_x = 0, from_y = 600, to_x = 10, to_y = 600\<rparr>),
          ((-5, 5), Some \<lparr>from_x = 0, from_y = 0, to_x = 10, to_y = 0\<rparr>),
          ((5, -5), Some \<lparr>from_x = 600, from_y = 600, to_x = 610, to_y = 600\<rparr>),
          ((5, 5), Some \<lparr>from_x = 600, from_y = 0, to_x = 610, to_y = 0\<rparr>)]"
proof -
  have g: "gridDensity const_flow = 1" by (simp add: const_flow_def)
  have c: "\<And>i j. flowFieldCell const_flow i j =
      Inr ((-5 + real i * 10, -5 + real j * 10),
           Some \<lparr>from_x = (real i * 10) / 10 * 600, from_y = 600 - (real j * 10) / 10 * 600,
                 to_x = (real i * 10) / 10 * 600 + 10, to_y = 600 - (real j * 10) / 10 * 600\<rparr>)"
    by (simp add: flowFieldCell_def const_flow_field Let_def worldToCanvasX_def worldToCanvasY_def)
       (simp add: const_flow_def initialVisualizer_def)
  show ?thesis by (simp add: drawFlowField_def g c)
qed

text \<open>
  Claim C3, as amended. For a viewport with \<open>xMin < xMax\<close> and \<open>yMin < yMax\<close> and a grid
  density \<open>N \<ge> 1\<close>, \<open>drawFlowField\<close> evaluates the system at the \<open>(N + 1)\<^sup>2\<close> pairwise
  distinct grid points \<open>(xMin + i * stepX, yMin + j * stepY)\<close>, \<open>i, j = 0..N\<close>. The points
  that get an arrow form a subset of them (not always a strict one): exactly the points
  where the evaluated vector has nonzero magnitude. Every arrow starts at the projected
  grid point, its displacement is the normalized vector times \<open>arrowScale * 20\<close>, and its
  length is \<open>|arrowScale * 20|\<close>.
\<close>

theorem drawFlowField_sampling:
  assumes "xMin st < xMax st" and "yMin st < yMax st" and "0 < gridDensity st"
  shows "\<exists>tr. drawFlowField st = Inr tr
    \<and> map fst tr = [(grid_x st i, grid_y st j).
                     i \<leftarrow> [0..<Suc (gridDensity st)], j \<leftarrow> [0..<Suc (gridDensity st)]]
    \<and> length tr = (gridDensity st + 1)\<^sup>2
    \<and> distinct (map fst tr)
    \<and> set (arrow_points st) \<subseteq> set (sampled_points st)
    \<and> (\<forall>x y a. ((x, y), a) \<in> set tr \<longrightarrow>
         (a \<noteq> None \<longleftrightarrow> magnitude (field st x y) \<noteq> 0)
       \<and> (\<forall>ar. a = Some ar \<longrightarrow>
            from_x ar = worldToCanvasX st x \<and> from_y ar = worldToCanvasY st y
          \<and> to_x ar - from_x ar = vdx (field st x y) / magnitude (field st x y) * (arrowScale st * 20)
          \<and> from_y ar - to_y ar = vdy (field st x y) / magnitude (field st x y) * (arrowScale st * 20)
          \<and> sqrt ((to_x ar - from_x ar)\<^sup>2 + (to_y ar - from_y ar)\<^sup>2) = \<bar>arrowScale st * 20\<bar>))"
proof -
  let ?n = "Suc (gridDensity st)"
  let ?tr = "concat (map (\<lambda>i. map (\<lambda>j. ((grid_x st i, grid_y st j),
                                    cell_arrow st (grid_x st i) (grid_y st j)))
                           [0..<?n]) [0..<?n])"
  have tr: "drawFlowField st = Inr ?tr" by (rule drawFlowField_eq)
  have pts: "map fst ?tr = [(grid_x st i, grid_y st j). i \<leftarrow> [0..<?n], j \<leftarrow> [0..<?n]]"
    by (simp add: map_concat comp_def)
  have len: "length ?tr = (gridDensity st + 1)\<^sup>2"
    by (simp add: length_concat comp_def sum_list_triv power2_eq_square)
  have prod: "map fst ?tr = map (\<lambda>(i, j). (grid_x st i, grid_y st j)) (List.product [0..<?n] [0..<?n])"
    unfolding pts by (rule concat_map_product)
  have dist: "distinct (map fst ?tr)"
    unfolding prod by (rule grid_points_distinct [OF assms])
  have sub: "set (arrow_points st) \<subseteq> set (sampled_points st)"
    unfolding arrow_points_def sampled_points_def tr by auto
  have cells: "\<And>x y a. ((x, y), a) \<in> set ?tr \<Longrightarrow> a = cell_arrow st x y"
    by auto
  have props: "\<forall>x y a. ((x, y), a) \<in> set ?tr \<longrightarrow>
         (a \<noteq> None \<longleftrightarrow> magnitude (field st x y) \<noteq> 0)
       \<and> (\<forall>ar. a = Some ar \<longrightarrow>
            from_x ar = worldToCanvasX st x \<and> from_y ar = worldToCanvasY st y
          \<and> to_x ar - from_x ar = vdx (field st x y) / magnitude (field st x y) * (arrowScale st * 20)
          \<and> from_y ar - to_y ar = vdy (field st x y) / magnitude (field st x y) * (arrowScale st * 20)
          \<and> sqrt ((to_x ar - from_x ar)\<^sup>2 + (to_y ar - from_y ar)\<^sup>2) = \<bar>arrowScale st * 20\<bar>)"
  proof (intro allI impI)
    fix x y a assume "((x, y), a) \<in> set ?tr"
    then have a: "a = cell_arrow st x y" by (rule cells)
    show "(a \<noteq> None \<longleftrightarrow> magnitude (field st x y) \<noteq> 0)
       \<and> (\<forall>ar. a = Some ar \<longrightarrow>
            from_x ar = worldToCanvasX st x \<and> from_y ar = worldToCanvasY st y
          \<and> to_x ar - from_x ar = vdx (field st x y) / magnitude (field st x y) * (arrowScale st * 20)
          \<and> from_y ar - to_y ar = vdy (field st x y) / magnitude (field st x y) * (arrowScale st * 20)
          \<and> sqrt ((to_x ar - from_x ar)\<^sup>2 + (to_y ar - from_y ar)\<^sup>2) = \<bar>arrowScale st * 20\<bar>)"
      unfolding a
    proof (rule conjI)
      show "cell_arrow st x y \<noteq> None \<longleftrightarrow> magnitude (field st x y) \<noteq> 0"
        by (rule cell_arrow_None_iff)
    next
      show "\<forall>ar. cell_arrow st x y = Some ar \<longrightarrow>
            from_x ar = worldToCanvasX st x \<and> from_y ar = worldToCanvasY st y
          \<and> to_x ar - from_x ar = vdx (field st x y) / magnitude (field st x y) * (arrowScale st * 20)
          \<and> from_y ar - to_y ar = vdy (field st x y) / magnitude (field st x y) * (arrowScale st * 20)
          \<and> sqrt ((to_x ar - from_x ar)\<^sup>2 + (to_y ar - from_y ar)\<^sup>2) = \<bar>arrowScale st * 20\<bar>"
        using cell_arrow_Some by (intro allI impI)
    qed
  qed
  show ?thesis
    by (rule exI [of _ ?tr]) (intro conjI tr pts len dist sub props)
qed

theorem drawFlowField_sampling_witness:
  "xMin const_flow < xMax const_flow \<and> yMin const_flow < yMax const_flow
   \<and> 0 < gridDensity const_flow
   \<and> (\<exists>tr. drawFlowField const_flow = Inr tr \<and> length tr = 4 \<and> distinct (map fst tr)
         \<and> ((-5, -5), Some \<lparr>from_x = 0, from_y = 600, to_x = 10, to_y = 600\<rparr>) \<in> set tr
         \<and> magnitude (field const_flow (-5) (-5)) \<noteq> 0
         \<and> sqrt ((10 - 0)\<^sup>2 + (600 - 600)\<^sup>2) = \<bar>arrowScale const_flow * 20\<bar>)"
proof -
  let ?ar = "\<lparr>from_x = 0, from_y = 600, to_x = 10, to_y = 600\<rparr>"
  have h: "xMin const_flow < xMax const_flow" "yMin const_flow < yMax const_flow"
    "0 < gridDensity const_flow"
    by (simp_all add: const_flow_def initialVisualizer_def)
  from drawFlowField_sampling [OF h] obtain tr where
    tr: "drawFlowField const_flow = Inr tr" "length tr = (gridDensity const_flow + 1)\<^sup>2"
      "distinct (map fst tr)"
    and cells: "\<forall>x y a. ((x, y), a) \<in> set tr \<longrightarrow>
         (a \<noteq> None \<longleftrightarrow> magnitude (field const_flow x y) \<noteq> 0)
       \<and> (\<forall>ar. a = Some ar \<longrightarrow>
            from_x ar = worldToCanvasX const_flow x \<and> from_y ar = worldToCanvasY const_flow y
          \<and> to_x ar - from_x ar
              = vdx (field const_flow x y) / magnitude (field const_flow x y)
                  * (arrowScale const_flow * 20)
          \<and> from_y ar - to_y ar
              = vdy (field const_flow x y) / magnitude (field const_flow x y)
                  * (arrowScale const_flow * 20)
          \<and> sqrt ((to_x ar - from_x ar)\<^sup>2 + (to_y ar - from_y ar)\<^sup>2)
              = \<bar>arrowScale const_flow * 20\<bar>)"
    by blast
  have n: "(gridDensity const_flow + 1)\<^sup>2 = 4"
    by (simp add: const_flow_def power2_eq_square)
  have m: "((-5, -5), Some ?ar) \<in> set tr"
    using tr(1) by (auto simp: drawFlowField_const_flow)
  from cells m have "(Some ?ar \<noteq> None \<longleftrightarrow> magnitude (field const_flow (-5) (-5)) \<noteq> 0)
       \<and> (\<forall>ar. Some ?ar = Some ar \<longrightarrow>
            sqrt ((to_x ar - from_x ar)\<^sup>2 + (to_y ar - from_y ar)\<^sup>2)
              = \<bar>arrowScale const_flow * 20\<bar>)"
    by blast
  then have "magnitude (field const_flow (-5) (-5)) \<noteq> 0"
    and "sqrt ((to_x ?ar - from_x ?ar)\<^sup>2 + (to_y ?ar - from_y ?ar)\<^sup>2)
              = \<bar>arrowScale const_flow * 20\<bar>"
    by blast+
  then have "magnitude (field const_flow (-5) (-5)) \<noteq> 0"
    and "sqrt ((10 - 0)\<^sup>2 + (600 - 600)\<^sup>2) = \<bar>arrowScale const_flow * 20\<bar>"
    by simp_all
  with h tr n m show ?thesis by auto
qed

text \<open>
  Claim C3 as stated fails: for the constant field \<open>(1, 0)\<close> every grid point gets an
  arrow, so the points with arrows are not a strict subset of the sampled points.
\<close>

theorem drawFlowField_strict_subset_counterexample:
  "drawFlowField const_flow =
     Inr [((-5, -5), Some \<lparr>from_x = 0, from_y = 600, to_x = 10, to_y = 600\<rparr>),
          ((-5, 5), Some \<lparr>from_x = 0, from_y = 0, to_x = 10, to_y = 0\<rparr>),
          ((5, -5), Some \<lparr>from_x = 600, from_y = 600, to_x = 610, to_y = 600\<rparr>),
          ((5, 5), Some \<lparr>from_x = 600, from_y = 0, to_x = 610, to_y = 0\<rparr>)]
   \<and> \<not> (set (arrow_points const_flow) \<subset> set (sampled_points const_flow))"
  unfolding arrow_points_def sampled_points_def drawFlowField_const_flow by simp

subsection \<open>Nullclines\<close>













lemma nullclineScan_degenerate:
  assumes "nullclineScan st isDxDt x y = Some r"
  shows "\<not> (yMin st = yMax st \<and> y = yMax st \<and> (\<forall>y'. \<not> near_zero st isDxDt x y'))"
proof (rule nullclineScan.raw_induct
    [where P = "\<lambda>st isDxDt x y r.
         \<not> (yMin st = yMax st \<and> y = yMax st \<and> (\<forall>y'. \<not> near_zero st isDxDt x y'))"
       and xa = "(((st, isDxDt), x), y)" and ya = r, unfolded prod.case])
  show "nullclineScan st isDxDt x y = Some r" by (rule assms)
next
  fix f :: "visualizer \<Rightarrow> bool \<Rightarrow> real \<Rightarrow> real \<Rightarrow> (error + real option) option"
  fix st isDxDt x y r
  assume ih: "\<And>st isDxDt x y r. f st isDxDt x y = Some r \<Longrightarrow>
      \<not> (yMin st = yMax st \<and> y = yMax st \<and> (\<forall>y'. \<not> near_zero st isDxDt x y'))"
  assume body: "(if y \<le> yMax st
      then case evaluateSystem st x y of Inl e \<Rightarrow> Some (Inl e)
           | Inr v \<Rightarrow>
               if \<bar>component isDxDt v\<bar> < 5 / 10\<^sup>2 then Some (Inr (Some y))
               else f st isDxDt x (y + (yMax st - yMin st) / 100)
      else Some (Inr None)) = Some r"
  show "\<not> (yMin st = yMax st \<and> y = yMax st \<and> (\<forall>y'. \<not> near_zero st isDxDt x y'))"
  proof
    assume a: "yMin st = yMax st \<and> y = yMax st \<and> (\<forall>y'. \<not> near_zero st isDxDt x y')"
    then have "\<not> near_zero st isDxDt x y" by simp
    then have nz: "\<not> \<bar>component isDxDt (field st x y)\<bar> < 5 / 10\<^sup>2"
      by (simp add: near_zero_def)
    from body a nz have "f st isDxDt x y = Some r"
      by (simp add: evaluateSystem_returns)
    from ih [OF this] a show False by simp
  qed
qed

lemma nullclineScan_diverges:
  assumes "yMin st = yMax st" and "\<forall>y. \<not> near_zero st isDxDt x y"
  shows "nullclineScan st isDxDt x (yMin st) = None"
proof (cases "nullclineScan st isDxDt x (yMin st)")
  case None
  then show ?thesis .
next
  case (Some r)
  from nullclineScan_degenerate [OF Some] assms show ?thesis by simp
qed



end
